theory Spec2Isabelle
  imports Complex_Main "HOL-Library.AList" "HOL-Library.Sublist" "HOL-Library.Product_Lexorder"
begin

section \<open>Python values\<close>

subsection \<open>Floating-point numbers\<close>

text \<open>
  A Python \<open>float\<close> (and a numpy \<open>float64\<close>) is a finite number, one of the two
  infinities, or not-a-number. Finite arithmetic is exact here: a finite float is the
  real number it denotes, so neither the rounding of a result to 53 bits nor the overflow
  of a finite result to an infinity is part of the model, and the two zeros are one.
  The special values follow IEEE 754, which is what Python and numpy compute.
\<close>

datatype pyfloat = Num real | PInf | NInf | NaN

fun fneg :: "pyfloat \<Rightarrow> pyfloat" where
  "fneg (Num a) = Num (- a)"
| "fneg PInf = NInf"
| "fneg NInf = PInf"
| "fneg NaN = NaN"

fun fabs :: "pyfloat \<Rightarrow> pyfloat" where
  "fabs (Num a) = Num \<bar>a\<bar>"
| "fabs PInf = PInf"
| "fabs NInf = PInf"
| "fabs NaN = NaN"

fun fadd :: "pyfloat \<Rightarrow> pyfloat \<Rightarrow> pyfloat" where
  "fadd (Num a) (Num b) = Num (a + b)"
| "fadd NaN y = NaN"
| "fadd x NaN = NaN"
| "fadd PInf NInf = NaN"
| "fadd NInf PInf = NaN"
| "fadd PInf y = PInf"
| "fadd NInf y = NInf"
| "fadd (Num a) y = y"

definition fsub :: "pyfloat \<Rightarrow> pyfloat \<Rightarrow> pyfloat" where
  "fsub x y = fadd x (fneg y)"

text \<open>The sign of a float that is not NaN: \<open>-1\<close>, \<open>0\<close> or \<open>1\<close>.\<close>

fun fsign :: "pyfloat \<Rightarrow> int" where
  "fsign (Num a) = (if a < 0 then - 1 else if a = 0 then 0 else 1)"
| "fsign PInf = 1"
| "fsign NInf = - 1"
| "fsign NaN = 0"

fun fmul :: "pyfloat \<Rightarrow> pyfloat \<Rightarrow> pyfloat" where
  "fmul (Num a) (Num b) = Num (a * b)"
| "fmul NaN y = NaN"
| "fmul x NaN = NaN"
| "fmul x y =
     (let s = fsign x * fsign y
      in if s = 0 then NaN else if 0 < s then PInf else NInf)"

text \<open>
  IEEE division, as numpy divides: a zero divisor gives an infinity or NaN, no exception.
\<close>

fun fdiv :: "pyfloat \<Rightarrow> pyfloat \<Rightarrow> pyfloat" where
  "fdiv NaN y = NaN"
| "fdiv x NaN = NaN"
| "fdiv (Num a) (Num b) =
     (if b = 0 then (if a = 0 then NaN else if 0 < a then PInf else NInf)
      else Num (a / b))"
| "fdiv (Num a) y = Num 0"
| "fdiv x (Num b) =
     (if 0 \<le> fsign x * (if b < 0 then - 1 else 1) then PInf else NInf)"
| "fdiv x y = NaN"

fun fsqrt :: "pyfloat \<Rightarrow> pyfloat" where
  "fsqrt (Num a) = (if a < 0 then NaN else Num (sqrt a))"
| "fsqrt PInf = PInf"
| "fsqrt NInf = NaN"
| "fsqrt NaN = NaN"

text \<open>\<open>x < y\<close> on floats: every comparison with NaN is false.\<close>

fun flt :: "pyfloat \<Rightarrow> pyfloat \<Rightarrow> bool" where
  "flt (Num a) (Num b) = (a < b)"
| "flt NaN y = False"
| "flt x NaN = False"
| "flt x NInf = False"
| "flt PInf y = False"
| "flt NInf y = True"
| "flt x PInf = True"

definition fgt :: "pyfloat \<Rightarrow> pyfloat \<Rightarrow> bool" where
  "fgt x y = flt y x"

definition fge :: "pyfloat \<Rightarrow> pyfloat \<Rightarrow> bool" where
  "fge x y = (flt y x \<or> (x = y \<and> x \<noteq> NaN))"

text \<open>
  Python's builtin \<open>min(a, b)\<close> keeps \<open>a\<close> unless \<open>b < a\<close>, and \<open>max(a, b)\<close>
  keeps \<open>a\<close> unless \<open>b > a\<close>; so a NaN second argument is dropped.
\<close>

definition py_min :: "pyfloat \<Rightarrow> pyfloat \<Rightarrow> pyfloat" where
  "py_min a b = (if flt b a then b else a)"

definition py_max :: "pyfloat \<Rightarrow> pyfloat \<Rightarrow> pyfloat" where
  "py_max a b = (if fgt b a then b else a)"

text \<open>
  \<open>round(x, 2)\<close>: the nearest multiple of one hundredth, a tie going to the even
  neighbour; infinities and NaN are returned as they are.
\<close>

definition round_half_even :: "real \<Rightarrow> int" where
  "round_half_even x =
     (let f = \<lfloor>x\<rfloor>; d = x - of_int f
      in if d < 1 / 2 then f
         else if 1 / 2 < d then f + 1
         else if even f then f else f + 1)"

fun py_round2 :: "pyfloat \<Rightarrow> pyfloat" where
  "py_round2 (Num a) = Num (of_int (round_half_even (a * 100)) / 100)"
| "py_round2 x = x"

text \<open>A float that is a number between 0 and 100.\<close>

fun in_0_100 :: "pyfloat \<Rightarrow> bool" where
  "in_0_100 (Num a) = (0 \<le> a \<and> a \<le> 100)"
| "in_0_100 x = False"

fun finite_float :: "pyfloat \<Rightarrow> bool" where
  "finite_float (Num a) = True"
| "finite_float x = False"

fun the_num :: "pyfloat \<Rightarrow> real" where
  "the_num (Num a) = a"
| "the_num x = 0"

subsection \<open>Exceptions and JSON-like values\<close>

datatype py_error =
  TypeError | KeyError | IndexError | AttributeError | ValueError | ZeroDivisionError
  | DatabaseError

text \<open>
  What the data sources hand over is decoded JSON: \<open>None\<close>, a boolean, a number, a
  string, a list or a dictionary with string keys. A dictionary is an association list in
  insertion order, read by \<open>map_of\<close>. A JSON integer is the float of the same value.
\<close>

datatype pyval =
  PNone | PBool bool | PNum pyfloat | PStr string
  | PList "pyval list" | PDict "(string \<times> pyval) list"

type_synonym 'a result = "py_error + 'a"

definition py_bind :: "'a result \<Rightarrow> ('a \<Rightarrow> 'b result) \<Rightarrow> 'b result" where
  "py_bind m f = (case m of Inl e \<Rightarrow> Inl e | Inr x \<Rightarrow> f x)"

text \<open>Truth value of an object in a condition.\<close>

fun py_truthy :: "pyval \<Rightarrow> bool" where
  "py_truthy PNone = False"
| "py_truthy (PBool b) = b"
| "py_truthy (PNum x) = (x \<noteq> Num 0)"
| "py_truthy (PStr s) = (s \<noteq> [])"
| "py_truthy (PList xs) = (xs \<noteq> [])"
| "py_truthy (PDict kvs) = (kvs \<noteq> [])"

text \<open>\<open>key in v\<close> for a string \<open>key\<close>.\<close>

fun py_contains :: "string \<Rightarrow> pyval \<Rightarrow> bool result" where
  "py_contains key (PDict kvs) = Inr (map_of kvs key \<noteq> None)"
| "py_contains key (PList xs) = Inr (PStr key \<in> set xs)"
| "py_contains key (PStr s) = Inr (sublist key s)"
| "py_contains key v = Inl TypeError"

text \<open>\<open>v[key]\<close> for a string \<open>key\<close>.\<close>

fun py_getitem :: "pyval \<Rightarrow> string \<Rightarrow> pyval result" where
  "py_getitem (PDict kvs) key =
     (case map_of kvs key of None \<Rightarrow> Inl KeyError | Some x \<Rightarrow> Inr x)"
| "py_getitem v key = Inl TypeError"

text \<open>\<open>v[i]\<close> for an index \<open>i \<ge> 0\<close>; a character of a string is a string.\<close>

fun py_index :: "pyval \<Rightarrow> nat \<Rightarrow> pyval result" where
  "py_index (PList xs) i = (if i < length xs then Inr (xs ! i) else Inl IndexError)"
| "py_index (PStr s) i = (if i < length s then Inr (PStr [s ! i]) else Inl IndexError)"
| "py_index (PDict kvs) i = Inl KeyError"
| "py_index v i = Inl TypeError"

text \<open>\<open>v.get(key, default)\<close>: only a dictionary has the method.\<close>

fun py_get :: "pyval \<Rightarrow> string \<Rightarrow> pyval \<Rightarrow> pyval result" where
  "py_get (PDict kvs) key d = Inr (case map_of kvs key of None \<Rightarrow> d | Some x \<Rightarrow> x)"
| "py_get v key d = Inl AttributeError"

fun py_len :: "pyval \<Rightarrow> nat result" where
  "py_len (PList xs) = Inr (length xs)"
| "py_len (PStr s) = Inr (length s)"
| "py_len (PDict kvs) = Inr (length kvs)"
| "py_len v = Inl TypeError"

text \<open>The slices \<open>v[:n]\<close> and \<open>v[-n:]\<close>, as the list of the items they hold.\<close>

fun py_slice_to :: "nat \<Rightarrow> pyval \<Rightarrow> pyval list result" where
  "py_slice_to n (PList xs) = Inr (take n xs)"
| "py_slice_to n (PStr s) = Inr (map (\<lambda>c. PStr [c]) (take n s))"
| "py_slice_to n v = Inl TypeError"

fun py_slice_last :: "nat \<Rightarrow> pyval \<Rightarrow> pyval list result" where
  "py_slice_last n (PList xs) = Inr (drop (length xs - n) xs)"
| "py_slice_last n (PStr s) = Inr (map (\<lambda>c. PStr [c]) (drop (length s - n) s))"
| "py_slice_last n v = Inl TypeError"

text \<open>\<open>v.replace("%", "")\<close>: a method of strings only.\<close>

fun py_replace_percent :: "pyval \<Rightarrow> string result" where
  "py_replace_percent (PStr s) = Inr (filter (\<lambda>c. c \<noteq> CHR ''%'') s)"
| "py_replace_percent v = Inl AttributeError"

text \<open>
  \<open>float(v)\<close>. The builtin conversion of a string is a parameter \<open>str2f\<close>: \<open>None\<close> where
  \<open>float\<close> raises \<open>ValueError\<close>.
\<close>

fun py_float :: "(string \<Rightarrow> pyfloat option) \<Rightarrow> pyval \<Rightarrow> pyfloat result" where
  "py_float str2f (PNum x) = Inr x"
| "py_float str2f (PBool b) = Inr (Num (if b then 1 else 0))"
| "py_float str2f (PStr s) =
     (case str2f s of None \<Rightarrow> Inl ValueError | Some x \<Rightarrow> Inr x)"
| "py_float str2f v = Inl TypeError"

text \<open>Python's float division raises on a zero divisor.\<close>

definition py_truediv :: "pyfloat \<Rightarrow> pyfloat \<Rightarrow> pyfloat result" where
  "py_truediv x y = (if y = Num 0 then Inl ZeroDivisionError else Inr (fdiv x y))"


fun py_map :: "('a \<Rightarrow> 'b result) \<Rightarrow> 'a list \<Rightarrow> 'b list result" where
  "py_map f [] = Inr []"
| "py_map f (x # xs) =
     py_bind (f x) (\<lambda>y. py_bind (py_map f xs) (\<lambda>ys. Inr (y # ys)))"

subsection \<open>The numpy functions the services call\<close>

text \<open>
  \<open>np.mean\<close> is the sum over the count (NaN for no element at all) and \<open>np.std\<close>, called
  with its default \<open>ddof = 0\<close>, is the square root of the mean of the squared absolute
  deviations from the mean.
\<close>

definition np_mean :: "pyfloat list \<Rightarrow> pyfloat" where
  "np_mean xs = fdiv (foldl fadd (Num 0) xs) (Num (real (length xs)))"

definition np_std :: "pyfloat list \<Rightarrow> pyfloat" where
  "np_std xs =
     (let m = np_mean xs
      in fsqrt (np_mean (map (\<lambda>x. let d = fabs (fsub x m) in fmul d d) xs)))"

section \<open>The risk calculator (services/risk\_calculator.py)\<close>

subsection \<open>Records, the database and the data sources\<close>

type_synonym raw_data = "(string \<times> pyval) list"

text \<open>The dictionary a category computation returns (the time stamp is left out).\<close>

record risk_result =
  category :: string
  score :: pyfloat
  raw_data :: raw_data

record risk_score_row =
  row_category :: string
  row_score :: pyfloat
  row_raw_data :: raw_data

record monte_carlo_row =
  mc_category :: string
  mc_mean :: pyfloat
  mc_std :: pyfloat
  mc_percentiles :: "(string \<times> pyfloat) list"
  mc_iterations :: int

text \<open>The two tables the services write; a new row goes to the end of its table.\<close>

record database =
  risk_scores :: "risk_score_row list"
  monte_carlo_results :: "monte_carlo_row list"

text \<open>
  What can go wrong in one database call: opening the session raises (outside the
  \<open>try\<close> of the helper, so the caller sees it), or the work inside the \<open>try\<close> raises
  (logged and swallowed by the helper).
\<close>

datatype db_fault = Db_ok | Session_error | Operation_error

text \<open>
  The world a computation runs in: what each fetcher returns (\<open>Inl\<close> when it raises),
  the fault of the store call of each category, and the builtin \<open>float\<close> on strings.
\<close>

record sources =
  float_of_str :: "string \<Rightarrow> pyfloat option"
  get_stock_quote :: "pyval result"
  get_gdp :: "pyval result"
  get_unrate :: "pyval result"
  get_risk_news :: "pyval result"
  get_company_filings :: "pyval result"
  get_employment_data :: "pyval result"
  store_fault :: "string \<Rightarrow> db_fault"

definition store_risk_score ::
  "db_fault \<Rightarrow> database \<Rightarrow> string \<Rightarrow> pyfloat \<Rightarrow> raw_data \<Rightarrow> database result" where
  "store_risk_score fault db cat sc raw =
     (case fault of
        Session_error \<Rightarrow> Inl DatabaseError
      | Operation_error \<Rightarrow> Inr db
      | Db_ok \<Rightarrow>
          Inr (db\<lparr>risk_scores := risk_scores db @
                 [\<lparr>row_category = cat, row_score = sc, row_raw_data = raw\<rparr>]\<rparr>))"

definition default_risk :: "string \<Rightarrow> risk_result" where
  "default_risk cat =
     \<lparr>category = cat, score = Num 50,
      raw_data = [(''error'', PStr ''Calculation failed, using default'')]\<rparr>"

text \<open>\<open>max(0, min(100, score))\<close>\<close>

definition normalize_score :: "pyfloat \<Rightarrow> pyfloat" where
  "normalize_score sc = py_max (Num 0) (py_min (Num 100) sc)"

subsection \<open>Market risk\<close>

text \<open>
  Each \<open>if\<close> block of the function is a step on the pair of the running score and the
  raw data; a step that raises is \<open>Inl\<close>.
\<close>

definition stock_signal ::
  "(string \<Rightarrow> pyfloat option) \<Rightarrow> pyval \<Rightarrow> pyfloat \<times> raw_data \<Rightarrow> (pyfloat \<times> raw_data) result" where
  "stock_signal str2f stock_data st =
     (if \<not> py_truthy stock_data then Inr st
      else py_bind (py_contains ''Global Quote'' stock_data) (\<lambda>has.
        if \<not> has then Inr st
        else
          py_bind (py_getitem stock_data ''Global Quote'') (\<lambda>quote.
          py_bind (py_get quote ''10. change percent'' (PStr ''0%'')) (\<lambda>txt.
          py_bind (py_replace_percent txt) (\<lambda>s.
          py_bind (py_float str2f (PStr s)) (\<lambda>change_percent.
            let volatility_score =
                  py_min (Num 100) (fadd (Num 50) (fmul (fabs change_percent) (Num 2)))
            in Inr (fdiv (fadd (fst st) volatility_score) (Num 2),
                    AList.update ''stock_change'' (PNum change_percent) (snd st))))))))"

definition gdp_signal ::
  "(string \<Rightarrow> pyfloat option) \<Rightarrow> pyval \<Rightarrow> pyfloat \<times> raw_data \<Rightarrow> (pyfloat \<times> raw_data) result" where
  "gdp_signal str2f gdp_data st =
     (if \<not> py_truthy gdp_data then Inr st
      else py_bind (py_contains ''observations'' gdp_data) (\<lambda>has.
        if \<not> has then Inr st
        else
          py_bind (py_getitem gdp_data ''observations'') (\<lambda>obs.
          py_bind (py_slice_to 2 obs) (\<lambda>observations.
            if 2 \<le> length observations then
              py_bind (py_get (observations ! 0) ''value'' (PNum (Num 0))) (\<lambda>v0.
              py_bind (py_float str2f v0) (\<lambda>recent.
              py_bind (py_get (observations ! 1) ''value'' (PNum (Num 0))) (\<lambda>v1.
              py_bind (py_float str2f v1) (\<lambda>previous.
                if fgt previous (Num 0) then
                  py_bind (py_truediv (fsub recent previous) previous) (\<lambda>q.
                    let gdp_growth = fmul q (Num 100);
                        sc = (if flt gdp_growth (Num 0)
                              then fadd (fst st) (fmul (fabs gdp_growth) (Num 5))
                              else fst st)
                    in Inr (sc, AList.update ''gdp_growth'' (PNum gdp_growth) (snd st)))
                else Inr st))))
            else Inr st))))"

definition unrate_signal ::
  "(string \<Rightarrow> pyfloat option) \<Rightarrow> pyval \<Rightarrow> pyfloat \<times> raw_data \<Rightarrow> (pyfloat \<times> raw_data) result" where
  "unrate_signal str2f unrate_data st =
     (if \<not> py_truthy unrate_data then Inr st
      else py_bind (py_contains ''observations'' unrate_data) (\<lambda>has.
        if \<not> has then Inr st
        else
          py_bind (py_getitem unrate_data ''observations'') (\<lambda>obs.
          py_bind (py_index obs 0) (\<lambda>latest.
          py_bind (py_get latest ''value'' (PNum (Num 0))) (\<lambda>v.
          py_bind (py_float str2f v) (\<lambda>unemployment.
            Inr (fadd (fst st) (fmul unemployment (Num 2)),
                 AList.update ''unemployment'' (PNum unemployment) (snd st))))))))"

text \<open>The computation between the fetches and the store: the final score and the raw data.\<close>

definition market_score ::
  "(string \<Rightarrow> pyfloat option) \<Rightarrow> pyval \<Rightarrow> pyval \<Rightarrow> pyval \<Rightarrow> (pyfloat \<times> raw_data) result" where
  "market_score str2f stock_data gdp_data unrate_data =
     py_bind (stock_signal str2f stock_data (Num 50, [])) (\<lambda>st1.
     py_bind (gdp_signal str2f gdp_data st1) (\<lambda>st2.
     py_bind (unrate_signal str2f unrate_data st2) (\<lambda>st3.
       Inr (normalize_score (fst st3), snd st3))))"

text \<open>The body of the \<open>try\<close>, and the function with its \<open>except\<close>.\<close>

definition calculate_market_risk_try ::
  "sources \<Rightarrow> database \<Rightarrow> (risk_result \<times> database) result" where
  "calculate_market_risk_try src db =
     py_bind (get_stock_quote src) (\<lambda>stock_data.
     py_bind (get_gdp src) (\<lambda>gdp_data.
     py_bind (get_unrate src) (\<lambda>unrate_data.
     py_bind (market_score (float_of_str src) stock_data gdp_data unrate_data) (\<lambda>r.
     py_bind (store_risk_score (store_fault src ''market'') db ''market'' (fst r) (snd r)) (\<lambda>db'.
       Inr (\<lparr>category = ''market'', score = py_round2 (fst r), raw_data = snd r\<rparr>, db'))))))"

definition calculate_market_risk :: "sources \<Rightarrow> database \<Rightarrow> risk_result \<times> database" where
  "calculate_market_risk src db =
     (case calculate_market_risk_try src db of
        Inl e \<Rightarrow> (default_risk ''market'', db)
      | Inr r \<Rightarrow> r)"

subsection \<open>Supply chain risk\<close>

definition recent_news_entry :: "pyval \<Rightarrow> pyval result" where
  "recent_news_entry article =
     py_bind (py_get article ''title'' (PStr [])) (\<lambda>title.
     py_bind (py_get article ''publishedAt'' (PStr [])) (\<lambda>published.
       Inr (PDict [(''title'', title), (''published'', published)])))"

definition news_signal :: "pyval \<Rightarrow> pyfloat \<times> raw_data \<Rightarrow> (pyfloat \<times> raw_data) result" where
  "news_signal news_data st =
     (if \<not> py_truthy news_data then Inr st
      else py_bind (py_contains ''articles'' news_data) (\<lambda>has.
        if \<not> has then Inr st
        else
          py_bind (py_getitem news_data ''articles'') (\<lambda>articles.
          py_bind (py_len articles) (\<lambda>article_count.
            let risk_adjustment = py_min (Num 30) (Num (real article_count * 1.5))
            in py_bind (py_slice_to 5 articles) (\<lambda>first5.
               py_bind (py_map recent_news_entry first5) (\<lambda>recent_news.
                 Inr (fadd (fst st) risk_adjustment,
                      AList.update ''recent_news'' (PList recent_news)
                        (AList.update ''news_articles'' (PNum (Num (real article_count)))
                           (snd st)))))))))"

definition supply_chain_score :: "pyval \<Rightarrow> (pyfloat \<times> raw_data) result" where
  "supply_chain_score news_data =
     py_bind (news_signal news_data (Num 50, [])) (\<lambda>st.
       Inr (normalize_score (fst st), snd st))"

definition calculate_supply_chain_risk_try ::
  "sources \<Rightarrow> database \<Rightarrow> (risk_result \<times> database) result" where
  "calculate_supply_chain_risk_try src db =
     py_bind (get_risk_news src) (\<lambda>news_data.
     py_bind (supply_chain_score news_data) (\<lambda>r.
     py_bind (store_risk_score (store_fault src ''supply_chain'') db ''supply_chain''
                (fst r) (snd r)) (\<lambda>db'.
       Inr (\<lparr>category = ''supply_chain'', score = py_round2 (fst r), raw_data = snd r\<rparr>,
            db'))))"

definition calculate_supply_chain_risk :: "sources \<Rightarrow> database \<Rightarrow> risk_result \<times> database" where
  "calculate_supply_chain_risk src db =
     (case calculate_supply_chain_risk_try src db of
        Inl e \<Rightarrow> (default_risk ''supply_chain'', db)
      | Inr r \<Rightarrow> r)"

subsection \<open>Regulatory risk\<close>

definition revenue_value :: "(string \<Rightarrow> pyfloat option) \<Rightarrow> pyval \<Rightarrow> pyfloat result" where
  "revenue_value str2f r = py_bind (py_get r ''val'' (PNum (Num 0))) (py_float str2f)"

definition filings_signal ::
  "(string \<Rightarrow> pyfloat option) \<Rightarrow> pyval \<Rightarrow> pyfloat \<times> raw_data \<Rightarrow> (pyfloat \<times> raw_data) result" where
  "filings_signal str2f sec_data st =
     (if \<not> py_truthy sec_data then Inr st
      else py_bind (py_contains ''units'' sec_data) (\<lambda>has.
        if \<not> has then Inr st
        else
          py_bind (py_get sec_data ''units'' (PDict [])) (\<lambda>units.
          py_bind (py_contains ''USD'' units) (\<lambda>has_usd.
            if \<not> has_usd then Inr st
            else
              py_bind (py_getitem units ''USD'') (\<lambda>revenues.
              py_bind (py_len revenues) (\<lambda>n.
                if 2 \<le> n then
                  py_bind (py_slice_last 4 revenues) (\<lambda>last4.
                  py_bind (py_map (revenue_value str2f) last4) (\<lambda>values.
                    if 2 \<le> length values then
                      let volatility =
                            (if fgt (np_mean values) (Num 0)
                             then fdiv (np_std values) (np_mean values)
                             else Num 0)
                      in Inr (fadd (fst st) (fmul volatility (Num 20)),
                              AList.update ''filing_count'' (PNum (Num (real n)))
                                (AList.update ''revenue_volatility'' (PNum volatility)
                                   (snd st)))
                    else Inr st))
                else Inr st))))))"

definition regulatory_score ::
  "(string \<Rightarrow> pyfloat option) \<Rightarrow> pyval \<Rightarrow> (pyfloat \<times> raw_data) result" where
  "regulatory_score str2f sec_data =
     py_bind (filings_signal str2f sec_data (Num 50, [])) (\<lambda>st.
       Inr (normalize_score (fst st), snd st))"

definition calculate_regulatory_risk_try ::
  "sources \<Rightarrow> database \<Rightarrow> (risk_result \<times> database) result" where
  "calculate_regulatory_risk_try src db =
     py_bind (get_company_filings src) (\<lambda>sec_data.
     py_bind (regulatory_score (float_of_str src) sec_data) (\<lambda>r.
     py_bind (store_risk_score (store_fault src ''regulatory'') db ''regulatory''
                (fst r) (snd r)) (\<lambda>db'.
       Inr (\<lparr>category = ''regulatory'', score = py_round2 (fst r), raw_data = snd r\<rparr>,
            db'))))"

definition calculate_regulatory_risk :: "sources \<Rightarrow> database \<Rightarrow> risk_result \<times> database" where
  "calculate_regulatory_risk src db =
     (case calculate_regulatory_risk_try src db of
        Inl e \<Rightarrow> (default_risk ''regulatory'', db)
      | Inr r \<Rightarrow> r)"

subsection \<open>HR risk\<close>

definition employment_signal ::
  "(string \<Rightarrow> pyfloat option) \<Rightarrow> pyval \<Rightarrow> pyfloat \<times> raw_data \<Rightarrow> (pyfloat \<times> raw_data) result" where
  "employment_signal str2f bls_data st =
     (if \<not> py_truthy bls_data then Inr st
      else py_bind (py_contains ''Results'' bls_data) (\<lambda>has.
        if \<not> has then Inr st
        else
          py_bind (py_getitem bls_data ''Results'') (\<lambda>results.
          py_bind (py_get results ''series'' (PList [])) (\<lambda>series.
            if \<not> py_truthy series then Inr st
            else py_bind (py_len series) (\<lambda>n.
              if \<not> 0 < n then Inr st
              else
                py_bind (py_index series 0) (\<lambda>first.
                py_bind (py_get first ''data'' (PList [])) (\<lambda>data.
                py_bind (py_len data) (\<lambda>m.
                  if 2 \<le> m then
                    py_bind (py_index data 0) (\<lambda>d0.
                    py_bind (py_get d0 ''value'' (PNum (Num 0))) (\<lambda>v0.
                    py_bind (py_float str2f v0) (\<lambda>recent.
                    py_bind (py_index data 1) (\<lambda>d1.
                    py_bind (py_get d1 ''value'' (PNum (Num 0))) (\<lambda>v1.
                    py_bind (py_float str2f v1) (\<lambda>previous.
                      let sc = (if fgt recent previous
                                then fadd (fst st) (fmul (fsub recent previous) (Num 10))
                                else fst st)
                      in Inr (sc,
                              AList.update ''unemployment_change'' (PNum (fsub recent previous))
                                (AList.update ''unemployment_rate'' (PNum recent)
                                   (snd st)))))))))
                  else Inr st))))))))"

definition hr_score ::
  "(string \<Rightarrow> pyfloat option) \<Rightarrow> pyval \<Rightarrow> (pyfloat \<times> raw_data) result" where
  "hr_score str2f bls_data =
     py_bind (employment_signal str2f bls_data (Num 50, [])) (\<lambda>st.
       Inr (normalize_score (fst st), snd st))"

definition calculate_hr_risk_try ::
  "sources \<Rightarrow> database \<Rightarrow> (risk_result \<times> database) result" where
  "calculate_hr_risk_try src db =
     py_bind (get_employment_data src) (\<lambda>bls_data.
     py_bind (hr_score (float_of_str src) bls_data) (\<lambda>r.
     py_bind (store_risk_score (store_fault src ''hr'') db ''hr'' (fst r) (snd r)) (\<lambda>db'.
       Inr (\<lparr>category = ''hr'', score = py_round2 (fst r), raw_data = snd r\<rparr>, db'))))"

definition calculate_hr_risk :: "sources \<Rightarrow> database \<Rightarrow> risk_result \<times> database" where
  "calculate_hr_risk src db =
     (case calculate_hr_risk_try src db of
        Inl e \<Rightarrow> (default_risk ''hr'', db)
      | Inr r \<Rightarrow> r)"

subsection \<open>All categories and the overall score\<close>




section \<open>The Monte Carlo simulator (services/monte\_carlo.py)\<close>

subsection \<open>Random draws, clipping and percentiles of numpy\<close>

text \<open>
  The generator is the stream of standard normal variates it is going to produce.
  \<open>np.random.normal(loc, scale, count)\<close> takes the next \<open>count\<close> of them, returns
  \<open>loc + scale * z\<close> for each and leaves the rest of the stream; a negative count or a
  negative scale raises \<open>ValueError\<close>.
\<close>

type_synonym rng = "nat \<Rightarrow> real"

definition normal_draws :: "rng \<Rightarrow> pyfloat \<Rightarrow> pyfloat \<Rightarrow> nat \<Rightarrow> pyfloat list" where
  "normal_draws g loc scale n = map (\<lambda>i. fadd loc (fmul scale (Num (g i)))) [0..<n]"

definition advance :: "rng \<Rightarrow> nat \<Rightarrow> rng" where
  "advance g n = (\<lambda>i. g (i + n))"

definition np_random_normal ::
  "rng \<Rightarrow> pyfloat \<Rightarrow> pyfloat \<Rightarrow> int \<Rightarrow> (pyfloat list \<times> rng) result" where
  "np_random_normal g loc scale count =
     (if count < 0 \<or> flt scale (Num 0) then Inl ValueError
      else Inr (normal_draws g loc scale (nat count), advance g (nat count)))"

text \<open>\<open>np.clip(a, lo, hi)\<close> on each element; NaN stays NaN.\<close>

fun clip1 :: "real \<Rightarrow> real \<Rightarrow> pyfloat \<Rightarrow> pyfloat" where
  "clip1 lo hi (Num a) = Num (min (max a lo) hi)"
| "clip1 lo hi PInf = Num hi"
| "clip1 lo hi NInf = Num (min lo hi)"
| "clip1 lo hi NaN = NaN"

definition np_clip :: "pyfloat list \<Rightarrow> real \<Rightarrow> real \<Rightarrow> pyfloat list" where
  "np_clip xs lo hi = map (clip1 lo hi) xs"

text \<open>
  \<open>np.percentile(a, q)\<close> with the default linear method: NaN if the array is empty or
  holds a NaN; else, on the sorted array, the value at the position \<open>q / 100 * (n - 1)\<close>,
  interpolated between the two neighbours. A \<open>q\<close> above 100 raises \<open>ValueError\<close>.
\<close>

fun sort_rank :: "pyfloat \<Rightarrow> int \<times> real" where
  "sort_rank (Num a) = (0, a)"
| "sort_rank PInf = (1, 0)"
| "sort_rank NInf = (- 1, 0)"
| "sort_rank NaN = (2, 0)"

definition percentile_value :: "pyfloat list \<Rightarrow> nat \<Rightarrow> pyfloat" where
  "percentile_value xs q =
     (if xs = [] \<or> NaN \<in> set xs then NaN
      else
        let s = sort_key sort_rank xs;
            n = length s;
            pos = real q / 100 * real (n - 1);
            lo = nat \<lfloor>pos\<rfloor>;
            hi = min (lo + 1) (n - 1);
            gamma = pos - real lo
        in fadd (s ! lo) (fmul (fsub (s ! hi) (s ! lo)) (Num gamma)))"

definition np_percentile :: "pyfloat list \<Rightarrow> nat \<Rightarrow> pyfloat result" where
  "np_percentile xs q = (if 100 < q then Inl ValueError else Inr (percentile_value xs q))"

subsection \<open>run\_simulation\<close>

record simulation_result =
  sim_category :: string
  mean :: pyfloat
  std :: pyfloat
  percentiles :: "(string \<times> pyfloat) list"
  iterations :: int

text \<open>
  The newest \<open>limit\<close> scores of a category, newest first. Only a failing query is caught
  in the helper and answered with the empty list.
\<close>

definition get_historical_scores ::
  "db_fault \<Rightarrow> database \<Rightarrow> string \<Rightarrow> nat \<Rightarrow> pyfloat list result" where
  "get_historical_scores fault db cat limit =
     (case fault of
        Session_error \<Rightarrow> Inl DatabaseError
      | Operation_error \<Rightarrow> Inr []
      | Db_ok \<Rightarrow>
          Inr (map row_score
                 (take limit (rev (filter (\<lambda>r. row_category r = cat) (risk_scores db))))))"

definition store_result :: "db_fault \<Rightarrow> database \<Rightarrow> simulation_result \<Rightarrow> database result" where
  "store_result fault db res =
     (case fault of
        Session_error \<Rightarrow> Inl DatabaseError
      | Operation_error \<Rightarrow> Inr db
      | Db_ok \<Rightarrow>
          Inr (db\<lparr>monte_carlo_results := monte_carlo_results db @
                 [\<lparr>mc_category = sim_category res, mc_mean = mean res, mc_std = std res,
                   mc_percentiles = percentiles res, mc_iterations = iterations res\<rparr>]\<rparr>))"

text \<open>The parameters of the draw: the \<open>if\<close> on the historical scores.\<close>

definition simulation_parameters :: "pyfloat list \<Rightarrow> pyfloat \<times> pyfloat" where
  "simulation_parameters historical_scores =
     (if historical_scores = [] \<or> length historical_scores < 2 then (Num 50, Num 15)
      else
        let risk_mean = np_mean historical_scores;
            risk_std = np_std historical_scores
        in (risk_mean, if flt risk_std (Num 1) then Num 10 else risk_std))"

definition run_simulation_try ::
  "rng \<Rightarrow> db_fault \<Rightarrow> db_fault \<Rightarrow> database \<Rightarrow> string \<Rightarrow> int \<Rightarrow> bool
     \<Rightarrow> (simulation_result \<times> database) result" where
  "run_simulation_try g read_fault write_fault db risk_category iters use_cached_data =
     py_bind (if use_cached_data then get_historical_scores read_fault db risk_category 30
              else Inr []) (\<lambda>historical_scores.
     py_bind (np_random_normal g (fst (simulation_parameters historical_scores))
                (snd (simulation_parameters historical_scores)) iters) (\<lambda>drawn.
       let simulations = np_clip (fst drawn) 0 100
       in py_bind (np_percentile simulations 5) (\<lambda>p5.
          py_bind (np_percentile simulations 50) (\<lambda>p50.
          py_bind (np_percentile simulations 95) (\<lambda>p95.
            let res = \<lparr>sim_category = risk_category,
                       mean = np_mean simulations, std = np_std simulations,
                       percentiles = [(''5'', p5), (''50'', p50), (''95'', p95)],
                       iterations = iters\<rparr>
            in py_bind (store_result write_fault db res) (\<lambda>db'. Inr (res, db')))))))"


subsection \<open>run\_multiple\_scenarios\<close>

record scenario_result =
  scenario_mean :: pyfloat
  scenario_std :: pyfloat
  scenario_percentiles :: "(string \<times> pyfloat) list"

record scenarios_result =
  scenarios_category :: string
  scenarios :: "(string \<times> scenario_result) list"

type_synonym scenario_params = "(string \<times> pyfloat) list"

definition default_scenarios :: "(string \<times> scenario_params) list" where
  "default_scenarios =
     [(''optimistic'', [(''mean'', Num 30), (''std'', Num 5)]),
      (''baseline'', [(''mean'', Num 50), (''std'', Num 10)]),
      (''pessimistic'', [(''mean'', Num 70), (''std'', Num 15)])]"

definition params_getitem :: "scenario_params \<Rightarrow> string \<Rightarrow> pyfloat result" where
  "params_getitem params key =
     (case map_of params key of None \<Rightarrow> Inl KeyError | Some x \<Rightarrow> Inr x)"

text \<open>The body of the loop over the scenarios, for one of them.\<close>

definition run_scenario :: "rng \<Rightarrow> scenario_params \<Rightarrow> (scenario_result \<times> rng) result" where
  "run_scenario g params =
     py_bind (params_getitem params ''mean'') (\<lambda>m.
     py_bind (params_getitem params ''std'') (\<lambda>s.
     py_bind (np_random_normal g m s 5000) (\<lambda>drawn.
       let simulations = np_clip (fst drawn) 0 100
       in py_bind (np_percentile simulations 5) (\<lambda>p5.
          py_bind (np_percentile simulations 50) (\<lambda>p50.
          py_bind (np_percentile simulations 95) (\<lambda>p95.
            Inr (\<lparr>scenario_mean = np_mean simulations, scenario_std = np_std simulations,
                  scenario_percentiles = [(''5'', p5), (''50'', p50), (''95'', p95)]\<rparr>,
                 snd drawn)))))))"

fun scenario_loop ::
  "rng \<Rightarrow> (string \<times> scenario_params) list \<Rightarrow> (string \<times> scenario_result) list
     \<Rightarrow> (string \<times> scenario_result) list result" where
  "scenario_loop g [] results = Inr results"
| "scenario_loop g (sc # rest) results =
     py_bind (run_scenario g (snd sc)) (\<lambda>r.
       scenario_loop (snd r) rest (AList.update (fst sc) (fst r) results))"

definition run_multiple_scenarios ::
  "rng \<Rightarrow> string \<Rightarrow> (string \<times> scenario_params) list option \<Rightarrow> scenarios_result result" where
  "run_multiple_scenarios g risk_category scenarios_arg =
     (let scs = (case scenarios_arg of None \<Rightarrow> default_scenarios | Some s \<Rightarrow> s)
      in py_bind (scenario_loop g scs []) (\<lambda>results.
           Inr \<lparr>scenarios_category = risk_category, scenarios = results\<rparr>))"

section \<open>Inputs used in the examples\<close>

definition empty_database :: database where
  "empty_database = \<lparr>risk_scores = [], monte_carlo_results = []\<rparr>"

text \<open>Every fetcher returns \<open>None\<close>, no string is a number, the store works.\<close>

definition no_signals :: sources where
  "no_signals =
     \<lparr>float_of_str = (\<lambda>s. None),
      get_stock_quote = Inr PNone, get_gdp = Inr PNone, get_unrate = Inr PNone,
      get_risk_news = Inr PNone, get_company_filings = Inr PNone,
      get_employment_data = Inr PNone,
      store_fault = (\<lambda>c. Db_ok)\<rparr>"

text \<open>Every fetcher raises (as when the cache lookup cannot reach the database).\<close>

definition broken_sources :: sources where
  "broken_sources =
     \<lparr>float_of_str = (\<lambda>s. None),
      get_stock_quote = Inl DatabaseError, get_gdp = Inl DatabaseError,
      get_unrate = Inl DatabaseError, get_risk_news = Inl DatabaseError,
      get_company_filings = Inl DatabaseError, get_employment_data = Inl DatabaseError,
      store_fault = (\<lambda>c. Db_ok)\<rparr>"

text \<open>The employment data has a list where the series dictionary should be.\<close>

definition malformed_employment :: sources where
  "malformed_employment =
     no_signals\<lparr>get_employment_data := Inr (PDict [(''Results'', PList [])])\<rparr>"

text \<open>A stock quote with a change of +8 percent, nothing else.\<close>

definition stock_up_8 :: sources where
  "stock_up_8 =
     no_signals
       \<lparr>float_of_str := (\<lambda>s. if s = ''8.0000'' then Some (Num 8) else None),
        get_stock_quote :=
          Inr (PDict [(''Global Quote'',
                 PDict [(''01. symbol'', PStr ''SPY''),
                        (''10. change percent'', PStr ''8.0000%'')])])\<rparr>"


text \<open>The commit of every store call fails (and is swallowed by the helper).\<close>

definition failing_commit :: sources where
  "failing_commit = no_signals\<lparr>store_fault := (\<lambda>c. Operation_error)\<rparr>"

text \<open>A generator whose variates alternate between \<open>-4\<close> and \<open>4\<close>.\<close>

definition alternating_rng :: rng where
  "alternating_rng = (\<lambda>i. if even i then - 4 else 4)"


text \<open>Two market scores of 50.\<close>

definition flat_scores_db :: database where
  "flat_scores_db =
     \<lparr>risk_scores =
        [\<lparr>row_category = ''market'', row_score = Num 50, row_raw_data = []\<rparr>,
         \<lparr>row_category = ''market'', row_score = Num 50, row_raw_data = []\<rparr>],
      monte_carlo_results = []\<rparr>"

section \<open>Notions used to state the properties\<close>

text \<open>
  The mean and the two standard deviations of statistics over the reals: the population
  one divides the sum of the squared deviations by the number of values, the sample one
  (Bessel's correction) by that number less one.
\<close>

definition mean_of :: "real list \<Rightarrow> real" where
  "mean_of rs = sum_list rs / real (length rs)"

definition population_std :: "real list \<Rightarrow> real" where
  "population_std rs = sqrt (sum_list (map (\<lambda>x. (x - mean_of rs)\<^sup>2) rs) / real (length rs))"


text \<open>
  The record \<open>run_simulation\<close> builds from a clipped sample array, and the one the loop of
  \<open>run_multiple_scenarios\<close> builds.
\<close>

definition simulation_summary :: "string \<Rightarrow> int \<Rightarrow> pyfloat list \<Rightarrow> simulation_result" where
  "simulation_summary cat n sims =
     \<lparr>sim_category = cat, mean = np_mean sims, std = np_std sims,
      percentiles = [(''5'', percentile_value sims 5), (''50'', percentile_value sims 50),
                     (''95'', percentile_value sims 95)],
      iterations = n\<rparr>"

definition scenario_summary :: "pyfloat list \<Rightarrow> scenario_result" where
  "scenario_summary sims =
     \<lparr>scenario_mean = np_mean sims, scenario_std = np_std sims,
      scenario_percentiles = [(''5'', percentile_value sims 5),
         (''50'', percentile_value sims 50), (''95'', percentile_value sims 95)]\<rparr>"

text \<open>
  Linear interpolation in a list of reals at a fractional position, the real-number
  content of \<open>percentile_value\<close>.
\<close>

definition interp :: "real list \<Rightarrow> real \<Rightarrow> real" where
  "interp a pos =
     (let lo = nat \<lfloor>pos\<rfloor>; hi = min (lo + 1) (length a - 1)
      in a ! lo + (a ! hi - a ! lo) * (pos - real lo))"

section \<open>Properties of the risk calculator\<close>

subsection \<open>Clamping and rounding\<close>

lemma normalize_score_in_range: "in_0_100 (normalize_score sc)"
  by (cases sc) (simp_all add: normalize_score_def py_min_def py_max_def fgt_def)

lemma round_half_even_lower: "0 \<le> x \<Longrightarrow> 0 \<le> round_half_even x"
  by (auto simp: round_half_even_def Let_def)

lemma round_half_even_upper:
  assumes "x \<le> of_int k"
  shows "round_half_even x \<le> k"
proof -
  have f: "\<lfloor>x\<rfloor> \<le> k" using assms by (simp add: floor_le_iff)
  show ?thesis
  proof (cases "\<lfloor>x\<rfloor> = k")
    case True
    then have "x - of_int \<lfloor>x\<rfloor> \<le> 0" using assms by simp
    then show ?thesis using True by (simp add: round_half_even_def Let_def)
  next
    case False
    then have "\<lfloor>x\<rfloor> + 1 \<le> k" using f by simp
    then show ?thesis using f by (simp add: round_half_even_def Let_def)
  qed
qed


lemma round_half_even_numeral [simp]: "round_half_even (numeral n) = numeral n"
  by (simp add: round_half_even_def)

lemma py_round2_in_range:
  assumes "in_0_100 x"
  shows "in_0_100 (py_round2 x)"
proof (cases x)
  case (Num a)
  then have a: "0 \<le> a" "a \<le> 100" using assms by simp_all
  have "0 \<le> round_half_even (a * 100)" using a by (intro round_half_even_lower) simp
  moreover have "round_half_even (a * 100) \<le> 10000"
    using a by (intro round_half_even_upper) simp
  ultimately show ?thesis using Num by simp
qed (use assms in simp_all)

lemma normalize_score_50 [simp]: "normalize_score (Num 50) = Num 50"
  by (simp add: normalize_score_def py_min_def py_max_def fgt_def)

subsection \<open>The score of every category is between 0 and 100\<close>

lemma market_score_in_range: "market_score str2f a b c = Inr r \<Longrightarrow> in_0_100 (fst r)"
  by (auto simp: market_score_def py_bind_def normalize_score_in_range split: sum.splits)

lemma supply_chain_score_in_range: "supply_chain_score a = Inr r \<Longrightarrow> in_0_100 (fst r)"
  by (auto simp: supply_chain_score_def py_bind_def normalize_score_in_range split: sum.splits)

lemma regulatory_score_in_range: "regulatory_score str2f a = Inr r \<Longrightarrow> in_0_100 (fst r)"
  by (auto simp: regulatory_score_def py_bind_def normalize_score_in_range split: sum.splits)

lemma hr_score_in_range: "hr_score str2f a = Inr r \<Longrightarrow> in_0_100 (fst r)"
  by (auto simp: hr_score_def py_bind_def normalize_score_in_range split: sum.splits)

lemma calculate_market_risk_in_range:
  "in_0_100 (score (fst (calculate_market_risk src db)))"
  by (auto simp: calculate_market_risk_def calculate_market_risk_try_def py_bind_def
        default_risk_def py_round2_in_range dest!: market_score_in_range split: sum.splits)

lemma calculate_supply_chain_risk_in_range:
  "in_0_100 (score (fst (calculate_supply_chain_risk src db)))"
  by (auto simp: calculate_supply_chain_risk_def calculate_supply_chain_risk_try_def py_bind_def
        default_risk_def py_round2_in_range dest!: supply_chain_score_in_range split: sum.splits)

lemma calculate_regulatory_risk_in_range:
  "in_0_100 (score (fst (calculate_regulatory_risk src db)))"
  by (auto simp: calculate_regulatory_risk_def calculate_regulatory_risk_try_def py_bind_def
        default_risk_def py_round2_in_range dest!: regulatory_score_in_range split: sum.splits)

lemma calculate_hr_risk_in_range:
  "in_0_100 (score (fst (calculate_hr_risk src db)))"
  by (auto simp: calculate_hr_risk_def calculate_hr_risk_try_def py_bind_def
        default_risk_def py_round2_in_range dest!: hr_score_in_range split: sum.splits)

lemma market_absent:
  "get_stock_quote src = Inr PNone \<Longrightarrow> get_gdp src = Inr PNone \<Longrightarrow> get_unrate src = Inr PNone
   \<Longrightarrow> score (fst (calculate_market_risk src db)) = Num 50"
  by (simp add: calculate_market_risk_def calculate_market_risk_try_def py_bind_def
        market_score_def stock_signal_def gdp_signal_def unrate_signal_def
        store_risk_score_def default_risk_def split: db_fault.splits)

lemma supply_chain_absent:
  "get_risk_news src = Inr PNone \<Longrightarrow> score (fst (calculate_supply_chain_risk src db)) = Num 50"
  by (simp add: calculate_supply_chain_risk_def calculate_supply_chain_risk_try_def py_bind_def
        supply_chain_score_def news_signal_def
        store_risk_score_def default_risk_def split: db_fault.splits)

lemma regulatory_absent:
  "get_company_filings src = Inr PNone
   \<Longrightarrow> score (fst (calculate_regulatory_risk src db)) = Num 50"
  by (simp add: calculate_regulatory_risk_def calculate_regulatory_risk_try_def py_bind_def
        regulatory_score_def filings_signal_def
        store_risk_score_def default_risk_def split: db_fault.splits)

lemma hr_absent:
  "get_employment_data src = Inr PNone \<Longrightarrow> score (fst (calculate_hr_risk src db)) = Num 50"
  by (simp add: calculate_hr_risk_def calculate_hr_risk_try_def py_bind_def
        hr_score_def employment_signal_def
        store_risk_score_def default_risk_def split: db_fault.splits)

text \<open>
  Claim C1. Whatever the fetchers return (a value of any shape, \<open>None\<close>, or an
  exception), whatever \<open>float\<close> makes of the strings and whether or not the store works,
  the score each of the four category computations returns is a number between 0 and 100;
  and when every fetcher of a category returns \<open>None\<close> the score is exactly 50.
\<close>

theorem category_scores_in_range:
  "in_0_100 (score (fst (calculate_market_risk src db)))
   \<and> in_0_100 (score (fst (calculate_supply_chain_risk src db)))
   \<and> in_0_100 (score (fst (calculate_regulatory_risk src db)))
   \<and> in_0_100 (score (fst (calculate_hr_risk src db)))
   \<and> (get_stock_quote src = Inr PNone \<and> get_gdp src = Inr PNone \<and> get_unrate src = Inr PNone
        \<longrightarrow> score (fst (calculate_market_risk src db)) = Num 50)
   \<and> (get_risk_news src = Inr PNone
        \<longrightarrow> score (fst (calculate_supply_chain_risk src db)) = Num 50)
   \<and> (get_company_filings src = Inr PNone
        \<longrightarrow> score (fst (calculate_regulatory_risk src db)) = Num 50)
   \<and> (get_employment_data src = Inr PNone
        \<longrightarrow> score (fst (calculate_hr_risk src db)) = Num 50)"
  using calculate_market_risk_in_range calculate_supply_chain_risk_in_range
    calculate_regulatory_risk_in_range calculate_hr_risk_in_range
    market_absent supply_chain_absent regulatory_absent hr_absent
  by blast

theorem category_scores_in_range_witness:
  "score (fst (calculate_market_risk no_signals empty_database)) = Num 50
   \<and> score (fst (calculate_supply_chain_risk no_signals empty_database)) = Num 50
   \<and> score (fst (calculate_regulatory_risk no_signals empty_database)) = Num 50
   \<and> score (fst (calculate_hr_risk no_signals empty_database)) = Num 50"
  using category_scores_in_range [of no_signals empty_database]
  by (simp add: no_signals_def)

subsection \<open>An exception gives the default record\<close>

text \<open>
  Claim C2 (as amended). A category function is total, so nothing is raised to its caller;
  and whenever an exception leaves the body of its \<open>try\<close> (one that the store helper
  has not caught itself), whatever the exception, it returns the default record of its
  category: score 50 and the raw data \<open>{"error": "Calculation failed, using default"}\<close>
  (with a capital C), and the database is as it was.
\<close>

theorem exception_gives_default:
  "(calculate_market_risk_try src db = Inl e1 \<longrightarrow>
      calculate_market_risk src db =
        (\<lparr>category = ''market'', score = Num 50,
          raw_data = [(''error'', PStr ''Calculation failed, using default'')]\<rparr>, db))
   \<and> (calculate_supply_chain_risk_try src db = Inl e2 \<longrightarrow>
      calculate_supply_chain_risk src db =
        (\<lparr>category = ''supply_chain'', score = Num 50,
          raw_data = [(''error'', PStr ''Calculation failed, using default'')]\<rparr>, db))
   \<and> (calculate_regulatory_risk_try src db = Inl e3 \<longrightarrow>
      calculate_regulatory_risk src db =
        (\<lparr>category = ''regulatory'', score = Num 50,
          raw_data = [(''error'', PStr ''Calculation failed, using default'')]\<rparr>, db))
   \<and> (calculate_hr_risk_try src db = Inl e4 \<longrightarrow>
      calculate_hr_risk src db =
        (\<lparr>category = ''hr'', score = Num 50,
          raw_data = [(''error'', PStr ''Calculation failed, using default'')]\<rparr>, db))"
  by (simp add: calculate_market_risk_def calculate_supply_chain_risk_def
        calculate_regulatory_risk_def calculate_hr_risk_def default_risk_def)

theorem exception_gives_default_witness:
  "calculate_market_risk broken_sources empty_database =
        (\<lparr>category = ''market'', score = Num 50,
          raw_data = [(''error'', PStr ''Calculation failed, using default'')]\<rparr>, empty_database)
   \<and> calculate_supply_chain_risk broken_sources empty_database =
        (\<lparr>category = ''supply_chain'', score = Num 50,
          raw_data = [(''error'', PStr ''Calculation failed, using default'')]\<rparr>, empty_database)
   \<and> calculate_regulatory_risk broken_sources empty_database =
        (\<lparr>category = ''regulatory'', score = Num 50,
          raw_data = [(''error'', PStr ''Calculation failed, using default'')]\<rparr>, empty_database)
   \<and> calculate_hr_risk broken_sources empty_database =
        (\<lparr>category = ''hr'', score = Num 50,
          raw_data = [(''error'', PStr ''Calculation failed, using default'')]\<rparr>, empty_database)"
proof -
  have "calculate_market_risk_try broken_sources empty_database = Inl DatabaseError"
    "calculate_supply_chain_risk_try broken_sources empty_database = Inl DatabaseError"
    "calculate_regulatory_risk_try broken_sources empty_database = Inl DatabaseError"
    "calculate_hr_risk_try broken_sources empty_database = Inl DatabaseError"
    by (simp_all add: calculate_market_risk_try_def calculate_supply_chain_risk_try_def
        calculate_regulatory_risk_try_def calculate_hr_risk_try_def broken_sources_def py_bind_def)
  then show ?thesis
    using exception_gives_default [of broken_sources empty_database DatabaseError DatabaseError
        DatabaseError DatabaseError]
    by simp
qed

text \<open>
  The claim as stated fails in two ways. The message returned is not the lower-case one:
  the employment data \<open>{"Results": []}\<close> makes \<open>.get\<close> raise on a list, and the
  default record carries the message with a capital C. And an exception that the store
  helper catches itself (a failing commit) is an exception during the computation that
  does not lead to the default record: the computed record is returned.
\<close>

theorem default_message_counterexample:
  "calculate_hr_risk_try malformed_employment empty_database = Inl AttributeError
   \<and> raw_data (fst (calculate_hr_risk malformed_employment empty_database))
       \<noteq> [(''error'', PStr ''calculation failed, using default'')]
   \<and> calculate_hr_risk failing_commit empty_database
       = (\<lparr>category = ''hr'', score = Num 50, raw_data = []\<rparr>, empty_database)"
  by (simp add: calculate_hr_risk_def calculate_hr_risk_try_def malformed_employment_def
      failing_commit_def no_signals_def py_bind_def hr_score_def employment_signal_def
      default_risk_def store_risk_score_def)

subsection \<open>A stock change of +8 percent\<close>

text \<open>
  Claim C5. When the quote holds a change-percent text that \<open>float\<close> reads as 8 once the
  percent signs are removed, the other two fetchers return \<open>None\<close> and the session of the
  store opens, the volatility score is \<open>min(100, 50 + 8 * 2) = 66\<close> and the returned
  market score is exactly \<open>(50 + 66) / 2 = 58\<close>.
\<close>

theorem stock_change_of_8:
  assumes "get_stock_quote src = Inr (PDict resp)"
    and "map_of resp ''Global Quote'' = Some (PDict quote)"
    and "map_of quote ''10. change percent'' = Some (PStr txt)"
    and "float_of_str src (filter (\<lambda>c. c \<noteq> CHR ''%'') txt) = Some (Num 8)"
    and "get_gdp src = Inr PNone" and "get_unrate src = Inr PNone"
    and "store_fault src ''market'' \<noteq> Session_error"
  shows "py_min (Num 100) (fadd (Num 50) (fmul (fabs (Num 8)) (Num 2))) = Num 66
    \<and> market_score (float_of_str src) (PDict resp) PNone PNone
        = Inr (Num 58, [(''stock_change'', PNum (Num 8))])
    \<and> fst (calculate_market_risk src db)
        = \<lparr>category = ''market'', score = Num 58,
           raw_data = [(''stock_change'', PNum (Num 8))]\<rparr>"
proof -
  have top: "resp \<noteq> []" using assms(2) by auto
  have v: "py_min (Num 100) (fadd (Num 50) (fmul (fabs (Num 8)) (Num 2))) = Num 66"
    by (simp add: py_min_def)
  have m: "market_score (float_of_str src) (PDict resp) PNone PNone
        = Inr (Num 58, [(''stock_change'', PNum (Num 8))])"
    using assms(2,3,4) top
    by (simp add: market_score_def stock_signal_def gdp_signal_def unrate_signal_def
        py_bind_def py_min_def normalize_score_def py_max_def fgt_def)
  have "fst (calculate_market_risk src db)
        = \<lparr>category = ''market'', score = Num 58,
           raw_data = [(''stock_change'', PNum (Num 8))]\<rparr>"
    using assms(1,5,6,7) m
    by (cases "store_fault src ''market''")
       (simp_all add: calculate_market_risk_def calculate_market_risk_try_def py_bind_def
        store_risk_score_def)
  with v m show ?thesis by simp
qed

theorem stock_change_of_8_witness:
  "market_score (float_of_str stock_up_8)
       (PDict [(''Global Quote'',
                 PDict [(''01. symbol'', PStr ''SPY''),
                        (''10. change percent'', PStr ''8.0000%'')])]) PNone PNone
        = Inr (Num 58, [(''stock_change'', PNum (Num 8))])
    \<and> fst (calculate_market_risk stock_up_8 empty_database)
        = \<lparr>category = ''market'', score = Num 58,
           raw_data = [(''stock_change'', PNum (Num 8))]\<rparr>"
  using stock_change_of_8 [of stock_up_8 "[(''Global Quote'',
                 PDict [(''01. symbol'', PStr ''SPY''),
                        (''10. change percent'', PStr ''8.0000%'')])]"
          "[(''01. symbol'', PStr ''SPY''), (''10. change percent'', PStr ''8.0000%'')]"
          "''8.0000%''" empty_database]
  by (simp add: stock_up_8_def no_signals_def)


subsection \<open>The returned score is rounded, the stored one is not\<close>




















subsection \<open>The overall score\<close>








section \<open>Properties of the simulator\<close>

subsection \<open>Arithmetic on finite floats\<close>

lemma foldl_fadd_Num: "foldl fadd (Num a) (map Num rs) = Num (a + sum_list rs)"
  by (induction rs arbitrary: a) (simp_all add: add.assoc)

lemma np_mean_Num:
  "rs \<noteq> [] \<Longrightarrow> np_mean (map Num rs) = Num (sum_list rs / real (length rs))"
  by (simp add: np_mean_def foldl_fadd_Num)

lemma squares_Num:
  "map (\<lambda>x. fmul (fabs (fsub x (Num m))) (fabs (fsub x (Num m)))) (map Num rs)
     = map Num (map (\<lambda>x. (x - m)\<^sup>2) rs)"
  by (simp add: fsub_def power2_eq_square)

lemma np_std_Num:
  assumes "rs \<noteq> []"
  shows "np_std (map Num rs) =
     Num (sqrt (sum_list (map (\<lambda>x. (x - sum_list rs / real (length rs))\<^sup>2) rs)
                / real (length rs)))"
proof -
  let ?m = "sum_list rs / real (length rs)"
  let ?sq = "map (\<lambda>x. (x - ?m)\<^sup>2) rs"
  have ne: "?sq \<noteq> []" using assms by simp
  have "0 \<le> sum_list ?sq" by (rule sum_list_nonneg) auto
  then have nonneg: "0 \<le> sum_list ?sq / real (length rs)" by simp
  have "np_std (map Num rs) = fsqrt (np_mean (map Num ?sq))"
    by (simp only: np_std_def Let_def np_mean_Num [OF assms] squares_Num)
  also have "\<dots> = fsqrt (Num (sum_list ?sq / real (length ?sq)))"
    by (simp only: np_mean_Num [OF ne])
  also have "\<dots> = Num (sqrt (sum_list ?sq / real (length rs)))"
    using nonneg by simp
  finally show ?thesis .
qed

lemma all_num_map: "list_all finite_float xs \<Longrightarrow> xs = map Num (map the_num xs)"
proof (induction xs)
  case (Cons x xs)
  then show ?case by (cases x) simp_all
qed simp

lemma sum_list_bounds:
  "list_all (\<lambda>r. lo \<le> r \<and> r \<le> (hi::real)) rs \<Longrightarrow>
   lo * real (length rs) \<le> sum_list rs \<and> sum_list rs \<le> hi * real (length rs)"
  by (induction rs) (auto simp: algebra_simps)

lemma in_range_map: "list_all in_0_100 xs \<Longrightarrow>
  xs = map Num (map the_num xs) \<and> list_all (\<lambda>r. 0 \<le> r \<and> r \<le> 100) (map the_num xs)"
proof (induction xs)
  case (Cons x xs)
  then show ?case by (cases x) simp_all
qed simp

lemma Num_the_num: "in_0_100 x \<Longrightarrow> Num (the_num x) = x"
  by (cases x) simp_all

lemma np_mean_in_range:
  assumes "list_all in_0_100 xs" and "xs \<noteq> []"
  shows "in_0_100 (np_mean xs)"
proof -
  define rs where "rs = map the_num xs"
  have xs: "xs = map Num rs" and rg: "list_all (\<lambda>r. 0 \<le> r \<and> r \<le> 100) rs"
    using in_range_map [OF assms(1)] by (simp_all add: rs_def)
  have ne: "rs \<noteq> []" using assms(2) xs by auto
  have b: "0 \<le> sum_list rs" "sum_list rs \<le> 100 * real (length rs)"
    using sum_list_bounds [OF rg] by simp_all
  have "0 < real (length rs)" using ne by simp
  then have "0 \<le> sum_list rs / real (length rs)" "sum_list rs / real (length rs) \<le> 100"
    using b by (simp_all add: field_simps)
  then show ?thesis by (simp add: xs np_mean_Num [OF ne])
qed

lemma clip1_in_range: "x \<noteq> NaN \<Longrightarrow> in_0_100 (clip1 0 100 x)"
  by (cases x) simp_all

lemma normal_draws_num:
  "list_all finite_float (normal_draws g (Num m) (Num s) n)"
  by (simp add: normal_draws_def list_all_iff)

lemma length_normal_draws [simp]: "length (normal_draws g loc scale n) = n"
  by (simp add: normal_draws_def)

lemma np_clip_in_range: "list_all finite_float xs \<Longrightarrow> list_all in_0_100 (np_clip xs 0 100)"
proof (induction xs)
  case (Cons x xs)
  then show ?case by (cases x) (simp_all add: np_clip_def)
qed (simp add: np_clip_def)

lemma length_np_clip [simp]: "length (np_clip xs lo hi) = length xs"
  by (simp add: np_clip_def)

subsection \<open>Percentiles of a clipped sample\<close>

lemma interp_between:
  assumes "sorted a" and "a \<noteq> []" and "0 \<le> pos" and "pos \<le> real (length a - 1)"
  shows "a ! nat \<lfloor>pos\<rfloor> \<le> interp a pos"
    and "interp a pos \<le> a ! min (nat \<lfloor>pos\<rfloor> + 1) (length a - 1)"
proof -
  let ?lo = "nat \<lfloor>pos\<rfloor>"
  let ?hi = "min (?lo + 1) (length a - 1)"
  have lo: "real ?lo \<le> pos" "pos < real ?lo + 1" using assms(3) by linarith+
  have n1: "length a - 1 < length a" using assms(2) by (cases a) simp_all
  have "?lo \<le> length a - 1" using assms(4) lo(1) by linarith
  then have "?lo \<le> ?hi" by simp
  moreover have "?hi < length a" using n1 by (simp add: min_less_iff_disj)
  ultimately have d: "0 \<le> a ! ?hi - a ! ?lo" using sorted_nth_mono [OF assms(1)] by simp
  have g: "0 \<le> pos - real ?lo" "pos - real ?lo \<le> 1" using lo by linarith+
  have "0 \<le> (a ! ?hi - a ! ?lo) * (pos - real ?lo)" using d g by simp
  then show "a ! ?lo \<le> interp a pos" by (simp add: interp_def Let_def)
  have "(a ! ?hi - a ! ?lo) * (pos - real ?lo) \<le> (a ! ?hi - a ! ?lo) * 1"
    using d g by (intro mult_left_mono) simp_all
  then show "interp a pos \<le> a ! ?hi" by (simp add: interp_def Let_def)
qed

lemma interp_mono:
  assumes "sorted a" and "a \<noteq> []" and "0 \<le> p" and "p \<le> p'"
    and "p' \<le> real (length a - 1)"
  shows "interp a p \<le> interp a p'"
proof -
  let ?lo = "nat \<lfloor>p\<rfloor>" and ?lo' = "nat \<lfloor>p'\<rfloor>"
  let ?hi = "min (?lo + 1) (length a - 1)"
  have le: "?lo \<le> ?lo'" using assms(3,4) by (simp add: floor_mono nat_mono)
  have lo': "real ?lo' \<le> p'" using assms(3,4) by linarith
  have n: "?lo' \<le> length a - 1" using assms(5) lo' by linarith
  then have lt: "?lo' < length a" using assms(2) by (cases a) simp_all
  show ?thesis
  proof (cases "?lo = ?lo'")
    case True
    have n1: "length a - 1 < length a" using assms(2) by (cases a) simp_all
    have "?lo \<le> ?hi" using n True by simp
    moreover have "?hi < length a" using n1 by (simp add: min_less_iff_disj)
    ultimately have d: "0 \<le> a ! ?hi - a ! ?lo" using sorted_nth_mono [OF assms(1)] by simp
    have "(a ! ?hi - a ! ?lo) * (p - real ?lo) \<le> (a ! ?hi - a ! ?lo) * (p' - real ?lo)"
      using d assms(4) by (intro mult_left_mono) simp_all
    then show ?thesis using True by (simp add: interp_def Let_def)
  next
    case False
    then have "?lo + 1 \<le> ?lo'" using le by simp
    then have hi: "?hi \<le> ?lo'" by simp
    have "interp a p \<le> a ! ?hi"
      using interp_between(2) [OF assms(1,2,3)] assms(4,5) by simp
    also have "\<dots> \<le> a ! ?lo'" using sorted_nth_mono [OF assms(1) hi lt] .
    also have "\<dots> \<le> interp a p'"
      using interp_between(1) [OF assms(1,2) _ assms(5)] assms(3,4) by simp
    finally show ?thesis .
  qed
qed

lemma interp_in_range:
  assumes "sorted a" and "a \<noteq> []" and "0 \<le> pos" and "pos \<le> real (length a - 1)"
    and "list_all (\<lambda>r. 0 \<le> r \<and> r \<le> 100) a"
  shows "0 \<le> interp a pos \<and> interp a pos \<le> 100"
proof -
  let ?lo = "nat \<lfloor>pos\<rfloor>"
  let ?hi = "min (?lo + 1) (length a - 1)"
  have lo: "real ?lo \<le> pos" using assms(3) by linarith
  have "?lo \<le> length a - 1" using assms(4) lo by linarith
  moreover have n1: "length a - 1 < length a" using assms(2) by (cases a) simp_all
  ultimately have "?lo < length a" "?hi < length a" by (simp_all add: min_less_iff_disj)
  then have "0 \<le> a ! ?lo" "a ! ?hi \<le> 100"
    using assms(5) by (simp_all add: list_all_length)
  then show ?thesis
    using interp_between [OF assms(1-4)] by linarith
qed

lemma sorted_the_num:
  assumes "list_all in_0_100 xs"
  shows "sorted (map the_num (sort_key sort_rank xs))"
proof -
  let ?s = "sort_key sort_rank xs"
  have "list_all in_0_100 ?s" using assms by (simp add: list_all_iff)
  then have s: "?s = map Num (map the_num ?s)" using in_range_map by blast
  have "sorted (map sort_rank ?s)" by (rule sorted_sort_key)
  then have "sorted (map sort_rank (map Num (map the_num ?s)))" using s by simp
  then have "sorted (map (\<lambda>r. (0::int, r)) (map the_num ?s))" by (simp add: comp_def)
  then show ?thesis by (simp add: sorted_map sorted_wrt_map)
qed

lemma percentile_value_interp:
  assumes "list_all in_0_100 xs" and "xs \<noteq> []" and "q \<le> 100"
  shows "percentile_value xs q =
     Num (interp (map the_num (sort_key sort_rank xs))
            (real q / 100 * real (length xs - 1)))"
proof -
  let ?s = "sort_key sort_rank xs"
  let ?a = "map the_num ?s"
  define pos where "pos = real q / 100 * real (length xs - 1)"
  define lo where "lo = nat \<lfloor>pos\<rfloor>"
  define hi where "hi = min (lo + 1) (length xs - 1)"
  have nonan: "NaN \<notin> set xs" using assms(1) by (auto simp: list_all_iff)
  have all: "list_all in_0_100 ?s" using assms(1) by (simp add: list_all_iff)
  have nth: "?s ! i = Num (?a ! i)" if "i < length xs" for i
    using that all by (simp add: list_all_length Num_the_num)
  have pos0: "0 \<le> pos" by (simp add: pos_def)
  have "real q / 100 \<le> 1" using assms(3) by simp
  then have "pos \<le> 1 * real (length xs - 1)"
    unfolding pos_def by (intro mult_right_mono) simp_all
  then have posn: "pos \<le> real (length xs - 1)" by simp
  have "real lo \<le> pos" using pos0 unfolding lo_def by linarith
  then have "lo \<le> length xs - 1" using posn by linarith
  moreover have n1: "length xs - 1 < length xs" using assms(2) by (cases xs) simp_all
  ultimately have lo: "lo < length xs" and hi: "hi < length xs"
    by (simp_all add: hi_def min_less_iff_disj)
  have "percentile_value xs q =
      fadd (?s ! lo) (fmul (fsub (?s ! hi) (?s ! lo)) (Num (pos - real lo)))"
    using assms(2) nonan by (simp add: percentile_value_def Let_def pos_def lo_def hi_def)
  also have "\<dots> = Num (?a ! lo + (?a ! hi - ?a ! lo) * (pos - real lo))"
    by (simp only: nth [OF lo] nth [OF hi] fsub_def fneg.simps fadd.simps fmul.simps)
       simp
  also have "\<dots> = Num (interp ?a pos)"
    by (simp add: interp_def Let_def lo_def hi_def)
  finally show ?thesis by (simp add: pos_def)
qed

lemma percentile_value_in_range:
  assumes "list_all in_0_100 xs" and "xs \<noteq> []" and "q \<le> 100"
  shows "in_0_100 (percentile_value xs q)"
proof -
  let ?a = "map the_num (sort_key sort_rank xs)"
  have "list_all in_0_100 (sort_key sort_rank xs)" using assms(1) by (simp add: list_all_iff)
  then have rg: "list_all (\<lambda>r. 0 \<le> r \<and> r \<le> 100) ?a" using in_range_map by blast
  have ne: "?a \<noteq> []" using assms(2) by (metis length_0_conv length_map length_sort)
  have "real q / 100 \<le> 1" using assms(3) by simp
  then have "real q / 100 * real (length xs - 1) \<le> 1 * real (length xs - 1)"
    by (intro mult_right_mono) simp_all
  then have "real q / 100 * real (length xs - 1) \<le> real (length ?a - 1)" by simp
  then show ?thesis
    using interp_in_range [OF sorted_the_num [OF assms(1)] ne _ _ rg,
        of "real q / 100 * real (length xs - 1)"]
    by (simp add: percentile_value_interp [OF assms])
qed

lemma percentile_value_mono:
  assumes "list_all in_0_100 xs" and "xs \<noteq> []" and "q \<le> q'" and "q' \<le> 100"
  shows "the_num (percentile_value xs q) \<le> the_num (percentile_value xs q')"
proof -
  let ?a = "map the_num (sort_key sort_rank xs)"
  have ne: "?a \<noteq> []" using assms(2) by (metis length_0_conv length_map length_sort)
  have q: "q \<le> 100" using assms(3,4) by simp
  have "real q' / 100 \<le> 1" using assms(4) by simp
  then have "real q' / 100 * real (length xs - 1) \<le> 1 * real (length xs - 1)"
    by (intro mult_right_mono) simp_all
  then have up: "real q' / 100 * real (length xs - 1) \<le> real (length ?a - 1)" by simp
  have "real q / 100 \<le> real q' / 100" using assms(3) by simp
  then have le: "real q / 100 * real (length xs - 1) \<le> real q' / 100 * real (length xs - 1)"
    by (intro mult_right_mono) simp_all
  show ?thesis
    using interp_mono [OF sorted_the_num [OF assms(1)] ne _ le up]
    by (simp add: percentile_value_interp [OF assms(1,2) q]
        percentile_value_interp [OF assms(1,2,4)])
qed

subsection \<open>The parameters of the draw and the run that uses them\<close>

lemma simulation_parameters_num:
  assumes "list_all finite_float hs"
  shows "\<exists>m s. simulation_parameters hs = (Num m, Num s)"
proof (cases "hs = [] \<or> length hs < 2")
  case True
  then show ?thesis by (auto simp: simulation_parameters_def)
next
  case False
  define rs where "rs = map the_num hs"
  have hs: "hs = map Num rs" using all_num_map [OF assms] by (simp add: rs_def)
  have ne: "rs \<noteq> []" using False hs by auto
  show ?thesis
    using False by (simp add: simulation_parameters_def Let_def hs np_mean_Num [OF ne]
        np_std_Num [OF ne])
qed

lemma historical_scores_num:
  assumes "list_all (\<lambda>r. finite_float (row_score r)) (risk_scores db)"
    and "(if uc then get_historical_scores rf db cat 30 else Inr []) = Inr hs"
  shows "list_all finite_float hs"
  using assms
  by (cases rf; cases uc) (auto simp: get_historical_scores_def list_all_iff dest!: in_set_takeD)

lemma simulation_parameters_Num:
  assumes "2 \<le> length rs"
  shows "simulation_parameters (map Num rs) =
     (Num (mean_of rs), Num (if population_std rs < 1 then 10 else population_std rs))"
proof -
  have ne: "rs \<noteq> []" using assms by auto
  have l: "\<not> length rs < 2" using assms by simp
  show ?thesis
    using ne l
    by (simp add: simulation_parameters_def Let_def np_mean_Num [OF ne] np_std_Num [OF ne]
        mean_of_def population_std_def)
qed








lemma mean_two: "np_mean [Num 0, Num 100] = Num 50"
  by (simp add: np_mean_def)

lemma flat_history:
  "get_historical_scores Db_ok flat_scores_db ''market'' 30 = Inr [Num 50, Num 50]"
  by (simp add: get_historical_scores_def flat_scores_db_def)


subsection \<open>An exception gives the fallback result\<close>




subsection \<open>Fewer than two historical scores\<close>



subsection \<open>Two or more historical scores\<close>




subsection \<open>The statistics of a run\<close>

text \<open>
  The scores the calculator stores are finite, so the hypothesis on the stored scores
  below holds of every database the calculator has filled.
\<close>

lemma normalize_score_finite: "finite_float (normalize_score sc)"
  using normalize_score_in_range [of sc] by (cases "normalize_score sc") simp_all

lemma store_risk_score_finite:
  assumes "list_all (\<lambda>r. finite_float (row_score r)) (risk_scores db)"
    and "store_risk_score fault db cat (normalize_score sc) raw = Inr db'"
  shows "list_all (\<lambda>r. finite_float (row_score r)) (risk_scores db')"
  using assms
  by (cases fault) (auto simp: store_risk_score_def normalize_score_finite)

lemma stored_scores_stay_finite:
  assumes "list_all (\<lambda>r. finite_float (row_score r)) (risk_scores db)"
  shows "list_all (\<lambda>r. finite_float (row_score r))
           (risk_scores (snd (calculate_market_risk src db)))"
    and "list_all (\<lambda>r. finite_float (row_score r))
           (risk_scores (snd (calculate_supply_chain_risk src db)))"
    and "list_all (\<lambda>r. finite_float (row_score r))
           (risk_scores (snd (calculate_regulatory_risk src db)))"
    and "list_all (\<lambda>r. finite_float (row_score r))
           (risk_scores (snd (calculate_hr_risk src db)))"
  using assms
  by (auto simp: calculate_market_risk_def calculate_market_risk_try_def market_score_def
      calculate_supply_chain_risk_def calculate_supply_chain_risk_try_def
      supply_chain_score_def calculate_regulatory_risk_def calculate_regulatory_risk_try_def
      regulatory_score_def calculate_hr_risk_def calculate_hr_risk_try_def hr_score_def
      py_bind_def split: sum.splits dest: store_risk_score_finite)

text \<open>
  Claim C8. For a run that does not end in the fallback, with at least one iteration and
  a history of finite scores: every clipped sample is between 0 and 100; the reported mean
  and standard deviation are those of the clipped samples; the reported percentiles are
  the 5th, 50th and 95th of the clipped samples; the mean and the three percentiles are
  between 0 and 100; and the percentiles are in ascending order.
\<close>

theorem simulation_statistics_in_range:
  assumes "run_simulation_try g rf sf db cat n uc = Inr (res, db')"
    and "0 < n"
    and "list_all (\<lambda>r. finite_float (row_score r)) (risk_scores db)"
  shows "\<exists>hs. (if uc then get_historical_scores rf db cat 30 else Inr []) = Inr hs \<and>
     (let sims = np_clip (normal_draws g (fst (simulation_parameters hs))
                            (snd (simulation_parameters hs)) (nat n)) 0 100
      in list_all in_0_100 sims
         \<and> mean res = np_mean sims \<and> std res = np_std sims
         \<and> percentiles res = [(''5'', percentile_value sims 5),
               (''50'', percentile_value sims 50), (''95'', percentile_value sims 95)]
         \<and> in_0_100 (mean res)
         \<and> in_0_100 (percentile_value sims 5)
         \<and> in_0_100 (percentile_value sims 50)
         \<and> in_0_100 (percentile_value sims 95)
         \<and> the_num (percentile_value sims 5) \<le> the_num (percentile_value sims 50)
         \<and> the_num (percentile_value sims 50) \<le> the_num (percentile_value sims 95))"
proof -
  from assms(1) obtain hs drawn where
    hs: "(if uc then get_historical_scores rf db cat 30 else Inr []) = Inr hs"
    and dr: "np_random_normal g (fst (simulation_parameters hs))
               (snd (simulation_parameters hs)) n = Inr drawn"
    and res: "res = \<lparr>sim_category = cat,
         mean = np_mean (np_clip (fst drawn) 0 100), std = np_std (np_clip (fst drawn) 0 100),
         percentiles = [(''5'', percentile_value (np_clip (fst drawn) 0 100) 5),
            (''50'', percentile_value (np_clip (fst drawn) 0 100) 50),
            (''95'', percentile_value (np_clip (fst drawn) 0 100) 95)],
         iterations = n\<rparr>"
    by (auto simp: run_simulation_try_def py_bind_def np_percentile_def Let_def
        split: sum.splits if_splits)
  define sims where "sims = np_clip (normal_draws g (fst (simulation_parameters hs))
                            (snd (simulation_parameters hs)) (nat n)) 0 100"
  have fd: "fst drawn = normal_draws g (fst (simulation_parameters hs))
                            (snd (simulation_parameters hs)) (nat n)"
    using dr by (auto simp: np_random_normal_def split: if_splits)
  obtain m s where ms: "simulation_parameters hs = (Num m, Num s)"
    using simulation_parameters_num [OF historical_scores_num [OF assms(3) hs]] by blast
  have rg: "list_all in_0_100 sims"
    unfolding sims_def ms by (simp add: np_clip_in_range normal_draws_num)
  have ne: "sims \<noteq> []" using assms(2) by (auto simp: sims_def np_clip_def normal_draws_def)
  have r: "mean res = np_mean sims" "std res = np_std sims"
    "percentiles res = [(''5'', percentile_value sims 5),
               (''50'', percentile_value sims 50), (''95'', percentile_value sims 95)]"
    by (simp_all add: res fd sims_def)
  have "in_0_100 (mean res)" using np_mean_in_range [OF rg ne] r by simp
  moreover have "in_0_100 (percentile_value sims 5)" "in_0_100 (percentile_value sims 50)"
    "in_0_100 (percentile_value sims 95)"
    using percentile_value_in_range [OF rg ne] by simp_all
  moreover have "the_num (percentile_value sims 5) \<le> the_num (percentile_value sims 50)"
    "the_num (percentile_value sims 50) \<le> the_num (percentile_value sims 95)"
    using percentile_value_mono [OF rg ne] by simp_all
  ultimately show ?thesis
    using hs rg r by (auto simp: Let_def sims_def [symmetric])
qed

theorem simulation_statistics_in_range_witness:
  "\<exists>res db'. run_simulation_try alternating_rng Db_ok Db_ok flat_scores_db ''market'' 2 True
        = Inr (res, db')
     \<and> mean res = Num 50
     \<and> percentiles res = [(''5'', Num 14), (''50'', Num 50), (''95'', Num 86)]"
proof -
  have d: "np_clip (normal_draws alternating_rng (Num 50) (Num 10) 2) 0 100
      = [Num 10, Num 90]"
    by (simp add: normal_draws_def alternating_rng_def upt_rec np_clip_def)
  have p: "simulation_parameters [Num 50, Num 50] = (Num 50, Num 10)"
    using simulation_parameters_Num [of "[50, 50]"]
    by (simp add: mean_of_def population_std_def)
  obtain db' where t: "run_simulation_try alternating_rng Db_ok Db_ok flat_scores_db
      ''market'' 2 True = Inr (simulation_summary ''market'' 2 [Num 10, Num 90], db')"
    by (simp add: run_simulation_try_def flat_history p py_bind_def np_random_normal_def d
        np_percentile_def store_result_def simulation_summary_def Let_def)
  have v: "np_mean [Num 10, Num 90] = Num 50"
    "percentile_value [Num 10, Num 90] 5 = Num 14"
    "percentile_value [Num 10, Num 90] 50 = Num 50"
    "percentile_value [Num 10, Num 90] 95 = Num 86"
    by (simp_all add: np_mean_def percentile_value_def Let_def fsub_def)
  from simulation_statistics_in_range [OF t] t v show ?thesis
    by (simp add: simulation_summary_def flat_scores_db_def)
qed

subsection \<open>The default scenarios\<close>

lemma run_scenario_default:
  "0 \<le> s \<Longrightarrow> run_scenario g [(''mean'', Num m), (''std'', Num s)] =
     Inr (scenario_summary (np_clip (normal_draws g (Num m) (Num s) 5000) 0 100),
          advance g 5000)"
  by (simp add: run_scenario_def params_getitem_def py_bind_def np_random_normal_def
      np_percentile_def scenario_summary_def Let_def)

text \<open>
  Claim C9. Called without scenarios, \<open>run_multiple_scenarios\<close> returns exactly three
  entries, in this order: optimistic, the summary of 5000 clipped draws with mean 30 and
  standard deviation 5; baseline, with 50 and 10; pessimistic, with 70 and 15. Each
  scenario draws its own 5000 variates, one stretch of the stream after the other.
\<close>

theorem default_scenarios_run:
  "run_multiple_scenarios g cat None =
     Inr \<lparr>scenarios_category = cat,
          scenarios =
            [(''optimistic'',
                scenario_summary (np_clip (normal_draws g (Num 30) (Num 5) 5000) 0 100)),
             (''baseline'',
                scenario_summary
                  (np_clip (normal_draws (advance g 5000) (Num 50) (Num 10) 5000) 0 100)),
             (''pessimistic'',
                scenario_summary
                  (np_clip (normal_draws (advance (advance g 5000) 5000) (Num 70) (Num 15) 5000)
                     0 100))]\<rparr>"
  by (simp add: run_multiple_scenarios_def default_scenarios_def run_scenario_default
      py_bind_def)

end
